theory Spec2Isabelle
  imports Main "HOL-Library.Word"
begin

unbundle bit_operations_syntax

section \<open>Values of the Go program\<close>

text \<open>
  The agent is compiled for a 64-bit platform: Go's \<open>int\<close> and \<open>int64\<close> are 64-bit
  two's complement integers whose arithmetic wraps around. A Go string is a sequence of
  bytes.
\<close>

type_synonym int64 = "64 word"
type_synonym goint = "64 word"
type_synonym byte = "8 word"
type_synonym uint32 = "32 word"
type_synonym addr = nat

definition AgentVersion :: string where
  "AgentVersion = ''1.2.2''"

definition SAASDashboardAddress :: string where
  "SAASDashboardAddress = ''https://agent-api.stackimpact.com''"

subsection \<open>strconv\<close>

definition digit_char :: "nat \<Rightarrow> char" where
  "digit_char d = ''0123456789'' ! (d mod 10)"

function digits10 :: "nat \<Rightarrow> string" where
  "digits10 n = (if n < 10 then [digit_char n] else digits10 (n div 10) @ [digit_char n])"
  by pat_completeness auto
termination
  by (relation "measure id") auto

declare digits10.simps [simp del]

text \<open>\<open>strconv.FormatInt(i, 10)\<close> and \<open>strconv.Itoa(i)\<close>: the decimal rendering of a
  signed 64-bit integer.\<close>

definition FormatInt :: "int64 \<Rightarrow> string" where
  "FormatInt i = (if sint i < 0 then CHR ''-'' # digits10 (nat (- sint i)) else digits10 (nat (sint i)))"

definition Itoa :: "goint \<Rightarrow> string" where
  "Itoa i = FormatInt i"

subsection \<open>crypto/sha1 and encoding/hex\<close>

text \<open>
  SHA-1 on a sequence of bytes: the padded message is cut into blocks of 64 bytes; each
  block is read as 16 big-endian words, extended to 80 words and run through 80 rounds
  that update the five words of the digest.
\<close>

text \<open>\<open>[]byte(s)\<close>: the bytes of a string.\<close>

definition bytes_of :: "string \<Rightarrow> byte list" where
  "bytes_of s = map (\<lambda>c. word_of_nat (of_char c)) s"

text \<open>The big-endian bytes of an unsigned integer of \<open>n\<close> bytes.\<close>

fun be_bytes :: "nat \<Rightarrow> nat \<Rightarrow> byte list" where
  "be_bytes 0 v = []"
| "be_bytes (Suc n) v = be_bytes n (v div 256) @ [word_of_nat (v mod 256)]"

definition be32 :: "byte list \<Rightarrow> uint32" where
  "be32 bs = foldl (\<lambda>acc b. push_bit 8 acc OR ucast b) 0 bs"

text \<open>The message followed by the bit 1, zero bytes up to 56 modulo 64, and the length of
  the message in bits as a 64-bit big-endian integer.\<close>

definition sha1_pad :: "byte list \<Rightarrow> byte list" where
  "sha1_pad m =
     m @ [0x80] @ replicate ((119 - length m mod 64) mod 64) 0
       @ be_bytes 8 ((8 * length m) mod 2 ^ 64)"

function chunks :: "nat \<Rightarrow> 'a list \<Rightarrow> 'a list list" where
  "chunks n xs = (if n = 0 \<or> xs = [] then [] else take n xs # chunks n (drop n xs))"
  by pat_completeness auto
termination
  by (relation "measure (\<lambda>(n, xs). length xs)") auto

declare chunks.simps [simp del]

fun sha1_expand :: "nat \<Rightarrow> uint32 list \<Rightarrow> uint32 list" where
  "sha1_expand 0 w = w"
| "sha1_expand (Suc k) w =
     (let i = length w
      in sha1_expand k
           (w @ [word_rotl 1 (w ! (i - 3) XOR w ! (i - 8) XOR w ! (i - 14) XOR w ! (i - 16))]))"

type_synonym sha1_digest = "uint32 \<times> uint32 \<times> uint32 \<times> uint32 \<times> uint32"

definition sha1_f :: "nat \<Rightarrow> uint32 \<Rightarrow> uint32 \<Rightarrow> uint32 \<Rightarrow> uint32" where
  "sha1_f i b c d =
     (if i < 20 then (b AND c) OR (NOT b AND d)
      else if i < 40 then b XOR c XOR d
      else if i < 60 then (b AND c) OR (b AND d) OR (c AND d)
      else b XOR c XOR d)"

definition sha1_k :: "nat \<Rightarrow> uint32" where
  "sha1_k i =
     (if i < 20 then 0x5A827999
      else if i < 40 then 0x6ED9EBA1
      else if i < 60 then 0x8F1BBCDC
      else 0xCA62C1D6)"

fun sha1_round :: "sha1_digest \<Rightarrow> nat \<times> uint32 \<Rightarrow> sha1_digest" where
  "sha1_round (a, b, c, d, e) (i, wi) =
     (word_rotl 5 a + sha1_f i b c d + e + sha1_k i + wi, a, word_rotl 30 b, c, d)"

fun sha1_block :: "sha1_digest \<Rightarrow> byte list \<Rightarrow> sha1_digest" where
  "sha1_block (h0, h1, h2, h3, h4) blk =
     (let w = sha1_expand 64 (map be32 (chunks 4 blk));
          (a, b, c, d, e) = foldl sha1_round (h0, h1, h2, h3, h4) (zip [0..<80] w)
      in (h0 + a, h1 + b, h2 + c, h3 + d, h4 + e))"

definition sha1_init :: sha1_digest where
  "sha1_init = (0x67452301, 0xEFCDAB89, 0x98BADCFE, 0x10325476, 0xC3D2E1F0)"

definition word_bytes :: "uint32 \<Rightarrow> byte list" where
  "word_bytes w = [ucast (drop_bit 24 w), ucast (drop_bit 16 w), ucast (drop_bit 8 w), ucast w]"

fun digest_bytes :: "sha1_digest \<Rightarrow> byte list" where
  "digest_bytes (h0, h1, h2, h3, h4) =
     word_bytes h0 @ word_bytes h1 @ word_bytes h2 @ word_bytes h3 @ word_bytes h4"

text \<open>\<open>h := sha1.New(); h.Write(m); h.Sum(nil)\<close>: the 20 bytes of the SHA-1 digest.\<close>

definition sha1_Sum :: "byte list \<Rightarrow> byte list" where
  "sha1_Sum m = digest_bytes (foldl sha1_block sha1_init (chunks 64 (sha1_pad m)))"

definition hextable :: string where
  "hextable = ''0123456789abcdef''"

text \<open>\<open>hex.EncodeToString\<close>: two characters of \<open>hextable\<close> for each byte, the high
  nibble first.\<close>

definition EncodeToString :: "byte list \<Rightarrow> string" where
  "EncodeToString src =
     concat (map (\<lambda>v. [hextable ! unat (drop_bit 4 v), hextable ! unat (v AND 0x0f)]) src)"

definition sha1String :: "string \<Rightarrow> string" where
  "sha1String s = EncodeToString (sha1_Sum (bytes_of s))"

subsection \<open>Errors and dynamically typed values\<close>

text \<open>
  A value of the interface \<open>error\<close>: either one made by \<open>errors.New\<close> (which
  \<open>fmt.Errorf\<close> returns for a format without \<open>%w\<close>), or a value of any other type with
  an \<open>Error\<close> method, told apart by a tag.
\<close>

datatype goerror = ErrorString string | CustomError nat string

fun Error :: "goerror \<Rightarrow> string" where
  "Error (ErrorString s) = s"
| "Error (CustomError tag s) = s"

definition errors_New :: "string \<Rightarrow> goerror" where
  "errors_New s = ErrorString s"

text \<open>
  The values of \<open>interface{}\<close> that the model covers: the nil interface, booleans,
  integers, strings, values with a \<open>String\<close> method (carrying what it returns) and
  errors.
\<close>

datatype govalue =
    VNil
  | VBool bool
  | VInt goint
  | VString string
  | VStringer string
  | VError goerror

text \<open>\<open>fmt.Sprintf("%v", v)\<close>: the default rendering of a value.\<close>

fun Sprintf_v :: "govalue \<Rightarrow> string" where
  "Sprintf_v VNil = ''<nil>''"
| "Sprintf_v (VBool b) = (if b then ''true'' else ''false'')"
| "Sprintf_v (VInt i) = FormatInt i"
| "Sprintf_v (VString s) = s"
| "Sprintf_v (VStringer s) = s"
| "Sprintf_v (VError e) = Error e"

text \<open>\<open>fmt.Errorf("%v", v)\<close>.\<close>

definition Errorf_v :: "govalue \<Rightarrow> goerror" where
  "Errorf_v v = errors_New (Sprintf_v v)"

section \<open>The agent and the process it runs in\<close>

text \<open>
  The collaborators (configuration loader, message queue, reporters, API request) are
  outside the agent's source. A collaborator is identified by the agent it was created
  for and its kind; a field holding one is a pointer, \<open>None\<close> for \<open>nil\<close>.
\<close>

datatype kind =
    Mutex
  | APIRequest
  | ConfigLoader
  | MessageQueue
  | ProcessReporter
  | CPUReporter
  | AllocationReporter
  | BlockReporter
  | SegmentReporter
  | ErrorReporter

type_synonym ref = "addr \<times> kind"

record agent =
  nextId :: int64
  runId :: string
  runTs :: int64
  overheadLock :: "ref option"
  apiRequest :: "ref option"
  configLoader :: "ref option"
  messageQueue :: "ref option"
  processReporter :: "ref option"
  cpuReporter :: "ref option"
  allocationReporter :: "ref option"
  blockReporter :: "ref option"
  segmentReporter :: "ref option"
  errorReporter :: "ref option"
  DashboardAddress :: string
  AgentKey :: string
  AppName :: string
  AppVersion :: string
  AppEnvironment :: string
  HostName :: string
  Debug :: bool
  disableProfiling :: bool

text \<open>
  What the agent does to the outside, in the order it does it: the calls of \<open>fmt.Printf\<close>
  and \<open>fmt.Println\<close> with their arguments, and the calls of the collaborators' methods
  with the receiver and the arguments.
\<close>

datatype event =
    Printf string "govalue list"
  | Println "govalue list"
  | Call_start "ref option"
  | Call_recordSegment "ref option" "string list" int64
  | Call_recordError "ref option" string goerror goint

text \<open>A \<open>time.Time\<close> as the agent observes it: \<open>t.Unix()\<close> and
  \<open>t.Format(time.StampMilli)\<close>.\<close>

record gotime =
  Unix :: int64
  StampMilli :: string

text \<open>
  The process: the package variable \<open>agentStarted\<close>, the agents that exist, the events so
  far, and the operating environment: the successive readings of the clock, the successive
  draws of the random number generator, and what \<open>os.Hostname()\<close> returns.
\<close>

record process =
  agentStarted :: bool
  heap :: "addr \<rightharpoonup> agent"
  allocated :: nat
  trace :: "event list"
  clock :: "nat \<Rightarrow> gotime"
  ticks :: nat
  rng :: "nat \<Rightarrow> nat"
  draws :: nat
  hostname :: "string \<times> goerror option"

definition emit :: "event \<Rightarrow> process \<Rightarrow> process" where
  "emit e p = p\<lparr>trace := trace p @ [e]\<rparr>"

text \<open>\<open>time.Now()\<close>.\<close>

definition time_Now :: "process \<Rightarrow> gotime \<times> process" where
  "time_Now p = (clock p (ticks p), p\<lparr>ticks := ticks p + 1\<rparr>)"

text \<open>\<open>rand.Intn(n)\<close> for a positive \<open>n\<close>: the next draw, which lies in \<open>[0, n)\<close>.\<close>

definition rand_Intn :: "nat \<Rightarrow> process \<Rightarrow> goint \<times> process" where
  "rand_Intn n p = (word_of_nat (rng p (draws p) mod n), p\<lparr>draws := draws p + 1\<rparr>)"

definition os_Hostname :: "process \<Rightarrow> string \<times> goerror option" where
  "os_Hostname p = hostname p"

subsection \<open>Diagnostics\<close>

definition newline :: char where
  "newline = CHR 0x0A"

definition log :: "agent \<Rightarrow> string \<Rightarrow> govalue list \<Rightarrow> process \<Rightarrow> process" where
  "log a format values p =
     (if Debug a then
        (let (t, p1) = time_Now p
         in emit (Printf (''['' @ StampMilli t @ '']'' @ '' StackImpact '' @ AgentVersion @ '': ''
                           @ format @ [newline]) values) p1)
      else p)"

definition error :: "agent \<Rightarrow> goerror \<Rightarrow> process \<Rightarrow> process" where
  "error a err p =
     (if Debug a then
        (let (t, p1) = time_Now p;
             p2 = emit (Println [VString (''['' @ StampMilli t @ '']'' @ '' StackImpact ''
                                          @ AgentVersion @ '': Error'')]) p1
         in emit (Println [VError err]) p2)
      else p)"

text \<open>
  The result of running a function body: it returned, or it is panicking with the value
  given to \<open>panic\<close>. \<open>recover()\<close>, called directly by a deferred function, returns that
  value and stops the panic; it returns nil when the goroutine is not panicking.
\<close>

datatype outcome = Returned | Panicking govalue

fun recover :: "outcome \<Rightarrow> govalue \<times> outcome" where
  "recover Returned = (VNil, Returned)"
| "recover (Panicking v) = (v, Returned)"

definition recoverAndLog :: "agent \<Rightarrow> outcome \<Rightarrow> process \<Rightarrow> outcome \<times> process" where
  "recoverAndLog a oc p =
     (let (err, oc') = recover oc
      in if err \<noteq> VNil then (oc', log a ''Recovered from panic in agent: %v'' [err] p)
         else (oc', p))"

text \<open>A guarded operation, \<open>func() { defer a.recoverAndLog(); body() }\<close>: the deferred call
  runs when the body has returned or is panicking.\<close>

definition guarded :: "agent \<Rightarrow> (process \<Rightarrow> outcome \<times> process) \<Rightarrow> process \<Rightarrow> outcome \<times> process" where
  "guarded a body p = (let (oc, p') = body p in recoverAndLog a oc p')"

subsection \<open>Identifier generation\<close>

definition uuid :: "agent \<Rightarrow> process \<Rightarrow> string \<times> agent \<times> process" where
  "uuid a p =
     (let a1 = a\<lparr>nextId := nextId a + 1\<rparr>;
          (t, p1) = time_Now p;
          (r, p2) = rand_Intn 1000000000 p1;
          uuid = FormatInt (Unix t) @ Itoa r @ FormatInt (nextId a1)
      in (sha1String uuid, a1, p2))"

text \<open>\<open>n\<close> calls of \<open>a.uuid()\<close> one after the other, with the identifiers in the order
  they were returned.\<close>

fun uuids :: "nat \<Rightarrow> agent \<Rightarrow> process \<Rightarrow> string list \<times> agent \<times> process" where
  "uuids 0 a p = ([], a, p)"
| "uuids (Suc n) a p =
     (let (u, a1, p1) = uuid a p;
          (us, a2, p2) = uuids n a1 p1
      in (u # us, a2, p2))"

text \<open>The text that the call number \<open>i + 1\<close> of successive calls of \<open>a.uuid()\<close> hashes: the
  clock reading, the random number and the counter of that call, in decimal, one after the
  other.\<close>

definition uuid_text :: "agent \<Rightarrow> process \<Rightarrow> nat \<Rightarrow> string" where
  "uuid_text a p i =
     FormatInt (Unix (clock p (ticks p + i)))
       @ Itoa (word_of_nat (rng p (draws p + i) mod 1000000000))
       @ FormatInt (nextId a + 1 + word_of_nat i)"

subsection \<open>Construction\<close>

text \<open>
  Modelled from the spec: the constructors \<open>newAPIRequest\<close>, \<open>newConfigLoader\<close>,
  \<open>newMessageQueue\<close> and \<open>newProcessReporter\<close> to \<open>newErrorReporter\<close> are not among the
  sources. Each returns a new collaborator that keeps a reference to the agent and does no
  observable work.
\<close>

definition new_collaborator :: "kind \<Rightarrow> addr \<Rightarrow> ref option" where
  "new_collaborator k this = Some (this, k)"

definition NewAgent :: "process \<Rightarrow> addr \<times> process" where
  "NewAgent p =
     (let this = allocated p;
          (t, p1) = time_Now p;
          a = \<lparr>nextId = 0, runId = [], runTs = Unix t,
               overheadLock = Some (this, Mutex),
               apiRequest = None, configLoader = None, messageQueue = None,
               processReporter = None, cpuReporter = None, allocationReporter = None,
               blockReporter = None, segmentReporter = None, errorReporter = None,
               DashboardAddress = SAASDashboardAddress,
               AgentKey = [], AppName = [], AppVersion = [], AppEnvironment = [],
               HostName = [], Debug = False, disableProfiling = False\<rparr>;
          (u, a1, p2) = uuid a p1;
          a2 = a1\<lparr>runId := u\<rparr>;
          a3 = a2\<lparr>apiRequest := new_collaborator APIRequest this\<rparr>;
          a4 = a3\<lparr>configLoader := new_collaborator ConfigLoader this\<rparr>;
          a5 = a4\<lparr>messageQueue := new_collaborator MessageQueue this\<rparr>;
          a6 = a5\<lparr>processReporter := new_collaborator ProcessReporter this\<rparr>;
          a7 = a6\<lparr>cpuReporter := new_collaborator CPUReporter this\<rparr>;
          a8 = a7\<lparr>allocationReporter := new_collaborator AllocationReporter this\<rparr>;
          a9 = a8\<lparr>blockReporter := new_collaborator BlockReporter this\<rparr>;
          a10 = a9\<lparr>segmentReporter := new_collaborator SegmentReporter this\<rparr>;
          a11 = a10\<lparr>errorReporter := new_collaborator ErrorReporter this\<rparr>
      in (this, p2\<lparr>heap := (heap p2)(this \<mapsto> a11), allocated := this + 1\<rparr>))"

subsection \<open>Startup and the recording facade\<close>

definition Start :: "agent \<Rightarrow> process \<Rightarrow> agent \<times> process" where
  "Start a p =
     (if agentStarted p then
        (a, log a ''Agent configuration failed. Another agent has already been initialized.'' [] p)
      else
        (let p1 = p\<lparr>agentStarted := True\<rparr>;
             (a1, p2) =
               (if HostName a = [] then
                  (let (hostName, err) = os_Hostname p1;
                       p' = (case err of Some e \<Rightarrow> error a e p1 | None \<Rightarrow> p1)
                   in (a\<lparr>HostName := hostName\<rparr>, p'))
                else (a, p1));
             p3 = emit (Call_start (configLoader a1)) p2;
             p4 = emit (Call_start (messageQueue a1)) p3;
             p5 = emit (Call_start (processReporter a1)) p4;
             p6 = emit (Call_start (cpuReporter a1)) p5;
             p7 = emit (Call_start (allocationReporter a1)) p6;
             p8 = emit (Call_start (blockReporter a1)) p7;
             p9 = emit (Call_start (segmentReporter a1)) p8;
             p10 = emit (Call_start (errorReporter a1)) p9
         in (a1, log a1 ''Agent started.'' [] p10)))"

definition RecordSegment :: "agent \<Rightarrow> string list \<Rightarrow> int64 \<Rightarrow> process \<Rightarrow> process" where
  "RecordSegment a path duration p =
     (if \<not> agentStarted p then p
      else emit (Call_recordSegment (segmentReporter a) path duration) p)"

definition RecordError :: "agent \<Rightarrow> string \<Rightarrow> govalue \<Rightarrow> goint \<Rightarrow> process \<Rightarrow> process" where
  "RecordError a grp msg skipFrames p =
     (if \<not> agentStarted p then p
      else
        (let err = (case msg of VError v \<Rightarrow> v | _ \<Rightarrow> Errorf_v msg)
         in emit (Call_recordError (errorReporter a) grp err (skipFrames + 1)) p))"

section \<open>Programs that use the agent\<close>

text \<open>
  The application sets the exported option fields of an agent it holds; the unexported
  fields are written by the agent's own functions only.
\<close>

datatype option_field =
    SetDashboardAddress string
  | SetAgentKey string
  | SetAppName string
  | SetAppVersion string
  | SetAppEnvironment string
  | SetHostName string
  | SetDebug bool

fun assign :: "option_field \<Rightarrow> agent \<Rightarrow> agent" where
  "assign (SetDashboardAddress v) a = a\<lparr>DashboardAddress := v\<rparr>"
| "assign (SetAgentKey v) a = a\<lparr>AgentKey := v\<rparr>"
| "assign (SetAppName v) a = a\<lparr>AppName := v\<rparr>"
| "assign (SetAppVersion v) a = a\<lparr>AppVersion := v\<rparr>"
| "assign (SetAppEnvironment v) a = a\<lparr>AppEnvironment := v\<rparr>"
| "assign (SetHostName v) a = a\<lparr>HostName := v\<rparr>"
| "assign (SetDebug v) a = a\<lparr>Debug := v\<rparr>"

text \<open>
  One call made by the program, on the agent at an address. The functions of the agent
  take the agent through a pointer: the call reads the agent at the address and stores
  what the function leaves. A program holds only pointers that \<open>NewAgent\<close> returned, so a
  call on an address where no agent is does not occur; the step leaves the process as it
  is.
\<close>

datatype call =
    DoNewAgent
  | DoAssign addr option_field
  | DoStart addr
  | DoRecordSegment addr "string list" int64
  | DoRecordError addr string govalue goint
  | DoLog addr string "govalue list"
  | DoError addr goerror
  | DoRecoverAndLog addr outcome
  | DoUuid addr

fun step :: "call \<Rightarrow> process \<Rightarrow> process" where
  "step DoNewAgent p = snd (NewAgent p)"
| "step (DoAssign x f) p =
     (case heap p x of None \<Rightarrow> p | Some a \<Rightarrow> p\<lparr>heap := (heap p)(x \<mapsto> assign f a)\<rparr>)"
| "step (DoStart x) p =
     (case heap p x of None \<Rightarrow> p
      | Some a \<Rightarrow> (let (a', p') = Start a p in p'\<lparr>heap := (heap p')(x \<mapsto> a')\<rparr>))"
| "step (DoRecordSegment x path duration) p =
     (case heap p x of None \<Rightarrow> p | Some a \<Rightarrow> RecordSegment a path duration p)"
| "step (DoRecordError x grp msg skipFrames) p =
     (case heap p x of None \<Rightarrow> p | Some a \<Rightarrow> RecordError a grp msg skipFrames p)"
| "step (DoLog x format values) p =
     (case heap p x of None \<Rightarrow> p | Some a \<Rightarrow> log a format values p)"
| "step (DoError x err) p =
     (case heap p x of None \<Rightarrow> p | Some a \<Rightarrow> error a err p)"
| "step (DoRecoverAndLog x oc) p =
     (case heap p x of None \<Rightarrow> p | Some a \<Rightarrow> snd (recoverAndLog a oc p))"
| "step (DoUuid x) p =
     (case heap p x of None \<Rightarrow> p
      | Some a \<Rightarrow> (let (u, a', p') = uuid a p in p'\<lparr>heap := (heap p')(x \<mapsto> a')\<rparr>))"

fun run :: "call list \<Rightarrow> process \<Rightarrow> process" where
  "run [] p = p"
| "run (c # cs) p = run cs (step c p)"

text \<open>The process when the program begins: no agent started, no agent made, nothing
  done yet.\<close>

definition initial :: "(nat \<Rightarrow> gotime) \<Rightarrow> (nat \<Rightarrow> nat) \<Rightarrow> string \<times> goerror option \<Rightarrow> process" where
  "initial clk rnd hn =
     \<lparr>agentStarted = False, heap = Map.empty, allocated = 0, trace = [],
      clock = clk, ticks = 0, rng = rnd, draws = 0, hostname = hn\<rparr>"

text \<open>The receivers of the \<open>start\<close> calls in a trace, in order.\<close>

fun started :: "event list \<Rightarrow> ref option list" where
  "started [] = []"
| "started (Call_start r # es) = r # started es"
| "started (e # es) = started es"

text \<open>
  What holds of every process a program can reach: an agent at an address below the next
  one to be allocated holds the collaborators made for it, no collaborator has been
  started while the flag is not set, and no collaborator has been started twice.
\<close>

definition wired :: "addr \<Rightarrow> agent \<Rightarrow> bool" where
  "wired x a \<longleftrightarrow>
     configLoader a = Some (x, ConfigLoader) \<and> messageQueue a = Some (x, MessageQueue) \<and>
     processReporter a = Some (x, ProcessReporter) \<and> cpuReporter a = Some (x, CPUReporter) \<and>
     allocationReporter a = Some (x, AllocationReporter) \<and>
     blockReporter a = Some (x, BlockReporter) \<and>
     segmentReporter a = Some (x, SegmentReporter) \<and> errorReporter a = Some (x, ErrorReporter)"

definition consistent :: "process \<Rightarrow> bool" where
  "consistent p \<longleftrightarrow>
     (\<forall>x a. heap p x = Some a \<longrightarrow> x < allocated p \<and> wired x a) \<and>
     (\<not> agentStarted p \<longrightarrow> started (trace p) = []) \<and>
     distinct (started (trace p))"

subsection \<open>Goroutines that call \<open>Start\<close> at the same time\<close>

text \<open>
  \<open>agentStarted\<close> is a plain \<open>bool\<close>, read by the \<open>if\<close> at the head of \<open>Start\<close> and written
  by the assignment after it; no lock or atomic operation makes the two one step. When
  several goroutines run \<open>Start\<close>, another goroutine can therefore run between the test and
  the assignment. \<open>Start_test\<close> is the test with its early return, \<open>Start_rest\<close> is what
  follows it, from the assignment on.
\<close>

definition Start_test :: "agent \<Rightarrow> process \<Rightarrow> bool \<times> process" where
  "Start_test a p =
     (if agentStarted p then
        (False, log a ''Agent configuration failed. Another agent has already been initialized.'' [] p)
      else (True, p))"

definition Start_rest :: "agent \<Rightarrow> process \<Rightarrow> agent \<times> process" where
  "Start_rest a p =
     (let p1 = p\<lparr>agentStarted := True\<rparr>;
          (a1, p2) =
            (if HostName a = [] then
               (let (hostName, err) = os_Hostname p1;
                    p' = (case err of Some e \<Rightarrow> error a e p1 | None \<Rightarrow> p1)
                in (a\<lparr>HostName := hostName\<rparr>, p'))
             else (a, p1));
          p3 = emit (Call_start (configLoader a1)) p2;
          p4 = emit (Call_start (messageQueue a1)) p3;
          p5 = emit (Call_start (processReporter a1)) p4;
          p6 = emit (Call_start (cpuReporter a1)) p5;
          p7 = emit (Call_start (allocationReporter a1)) p6;
          p8 = emit (Call_start (blockReporter a1)) p7;
          p9 = emit (Call_start (segmentReporter a1)) p8;
          p10 = emit (Call_start (errorReporter a1)) p9
      in (a1, log a1 ''Agent started.'' [] p10))"

text \<open>
  A goroutine that runs \<open>Start\<close> on the agent at an address is about to make the test, or
  has found the flag unset and is about to do the rest, or has returned. One step of the
  process lets the goroutine with the given number take its next step; a schedule is the
  order in which the goroutines take their steps.
\<close>

datatype goroutine = Calling addr | Passed addr | Finished

definition advance :: "nat \<Rightarrow> process \<times> goroutine list \<Rightarrow> process \<times> goroutine list" where
  "advance i s =
     (let (p, gs) = s
      in if i < length gs then
           (case gs ! i of
              Calling x \<Rightarrow>
                (case heap p x of
                   None \<Rightarrow> (p, gs[i := Finished])
                 | Some a \<Rightarrow>
                     (let (unset, p') = Start_test a p
                      in (p', gs[i := (if unset then Passed x else Finished)])))
            | Passed x \<Rightarrow>
                (case heap p x of
                   None \<Rightarrow> (p, gs[i := Finished])
                 | Some a \<Rightarrow>
                     (let (a', p') = Start_rest a p
                      in (p'\<lparr>heap := (heap p')(x \<mapsto> a')\<rparr>, gs[i := Finished])))
            | Finished \<Rightarrow> (p, gs))
         else (p, gs))"

fun schedule :: "nat list \<Rightarrow> process \<times> goroutine list \<Rightarrow> process \<times> goroutine list" where
  "schedule [] s = s"
| "schedule (i # js) s = schedule js (advance i s)"

section \<open>A sample process\<close>

text \<open>Two agents as \<open>NewAgent\<close> leaves them, with debugging switched on, in a process whose
  host name cannot be determined.\<close>

definition demo_clock :: "nat \<Rightarrow> gotime" where
  "demo_clock n = \<lparr>Unix = 1500000000, StampMilli = ''Jan  2 15:04:05.000''\<rparr>"

definition demo_rng :: "nat \<Rightarrow> nat" where
  "demo_rng n = (if n = 0 then 11 else 1)"

definition demo_agent :: "addr \<Rightarrow> agent" where
  "demo_agent x =
     \<lparr>nextId = 1, runId = sha1String ''1500000000111'', runTs = 1500000000,
      overheadLock = Some (x, Mutex), apiRequest = Some (x, APIRequest),
      configLoader = Some (x, ConfigLoader), messageQueue = Some (x, MessageQueue),
      processReporter = Some (x, ProcessReporter), cpuReporter = Some (x, CPUReporter),
      allocationReporter = Some (x, AllocationReporter),
      blockReporter = Some (x, BlockReporter), segmentReporter = Some (x, SegmentReporter),
      errorReporter = Some (x, ErrorReporter),
      DashboardAddress = SAASDashboardAddress,
      AgentKey = [], AppName = [], AppVersion = [], AppEnvironment = [],
      HostName = [], Debug = True, disableProfiling = False\<rparr>"

definition demo_process :: "bool \<Rightarrow> process" where
  "demo_process st =
     \<lparr>agentStarted = st, heap = [0 \<mapsto> demo_agent 0, 1 \<mapsto> demo_agent 1], allocated = 2,
      trace = [], clock = demo_clock, ticks = 4, rng = demo_rng, draws = 2,
      hostname = ([], Some (ErrorString ''hostname: not available''))\<rparr>"

text \<open>An agent whose counter is still zero, in a process whose first random number is 11
  and whose later ones are 1, all within one second.\<close>

definition fresh_agent :: agent where
  "fresh_agent = (demo_agent 0)\<lparr>nextId := 0\<rparr>"

definition fresh_process :: process where
  "fresh_process = (demo_process False)\<lparr>draws := 0\<rparr>"

text \<open>A process at its beginning, with the clock and the random numbers of the sample.\<close>

definition demo_initial :: process where
  "demo_initial = initial demo_clock demo_rng (''host'', None)"

section \<open>Properties\<close>

lemma started_append [simp]: "started (es @ fs) = started es @ started fs"
  by (induction es rule: started.induct) simp_all

lemma log_fields [simp]:
  "agentStarted (log a f vs p) = agentStarted p"
  "heap (log a f vs p) = heap p"
  "allocated (log a f vs p) = allocated p"
  "started (trace (log a f vs p)) = started (trace p)"
  by (simp_all add: log_def emit_def time_Now_def)

lemma error_fields [simp]:
  "agentStarted (error a e p) = agentStarted p"
  "heap (error a e p) = heap p"
  "allocated (error a e p) = allocated p"
  "started (trace (error a e p)) = started (trace p)"
  by (simp_all add: error_def emit_def time_Now_def)


text \<open>
  Claim C1. In a process where \<open>agentStarted\<close> is already set, \<open>Start\<close> on any agent
  does nothing but log: no collaborator's \<open>start\<close> is called, no field of any agent
  changes (the host name included), and the trace grows by exactly one \<open>Printf\<close> of the
  warning when \<open>Debug\<close> is set and by nothing when it is not.
\<close>

theorem Start_again_is_noop:
  "agentStarted p \<and> heap p x = Some a \<Longrightarrow>
     fst (Start a p) = a \<and>
     heap (step (DoStart x) p) = heap p \<and>
     agentStarted (step (DoStart x) p) = agentStarted p \<and>
     started (trace (step (DoStart x) p)) = started (trace p) \<and>
     trace (step (DoStart x) p) =
       trace p @
       (if Debug a then
          [Printf (''['' @ StampMilli (clock p (ticks p)) @ ''] StackImpact 1.2.2: ''
                   @ ''Agent configuration failed. Another agent has already been initialized.''
                   @ [newline]) []]
        else []) \<and>
     (\<not> Debug a \<longrightarrow> step (DoStart x) p = p)"
  by (auto simp add: Start_def log_def emit_def time_Now_def AgentVersion_def fun_upd_idem)

theorem Start_again_is_noop_witness:
  "agentStarted (demo_process True) \<and> heap (demo_process True) 1 = Some (demo_agent 1) \<and>
   heap (step (DoStart 1) (demo_process True)) = heap (demo_process True) \<and>
   trace (step (DoStart 1) (demo_process True)) =
     [Printf (''[Jan  2 15:04:05.000] StackImpact 1.2.2: Agent configuration failed. ''
              @ ''Another agent has already been initialized.'' @ [newline]) []]"
proof -
  have h: "agentStarted (demo_process True) \<and> heap (demo_process True) 1 = Some (demo_agent 1)"
    by (simp add: demo_process_def)
  show ?thesis
    using h Start_again_is_noop [OF h]
    by (simp add: demo_process_def demo_agent_def demo_clock_def)
qed

text \<open>
  Claim C2. While \<open>agentStarted\<close> is not set, \<open>RecordSegment\<close> and \<open>RecordError\<close> return
  the process as it was, for every agent and all arguments: no collaborator is called and
  nothing is modified.
\<close>

theorem Record_before_Start_is_noop:
  "\<not> agentStarted p \<Longrightarrow>
     RecordSegment a path duration p = p \<and>
     RecordError a grp msg skipFrames p = p \<and>
     step (DoRecordSegment x path duration) p = p \<and>
     step (DoRecordError x grp msg skipFrames) p = p"
  by (simp add: RecordSegment_def RecordError_def split: option.split)

theorem Record_before_Start_is_noop_witness:
  "\<not> agentStarted (demo_process False) \<and>
   RecordSegment (demo_agent 0) [''db'', ''query''] 120 (demo_process False) = demo_process False \<and>
   RecordError (demo_agent 0) ''db'' (VInt 42) 0 (demo_process False) = demo_process False"
proof -
  have h: "\<not> agentStarted (demo_process False)"
    by (simp add: demo_process_def)
  show ?thesis
    using h Record_before_Start_is_noop [OF h, of "demo_agent 0" "[''db'', ''query'']" 120 "''db''" "VInt 42" 0]
    by simp
qed

lemma FormatInt_42: "FormatInt 42 = ''42''"
  by (simp add: FormatInt_def digits10.simps [of 42] digits10.simps [of 4] digit_char_def)

lemma RecordError_started:
  "agentStarted p \<Longrightarrow>
     RecordError a grp msg skipFrames p
       = emit (Call_recordError (errorReporter a) grp
                 (case msg of VError e \<Rightarrow> e | _ \<Rightarrow> Errorf_v msg) (skipFrames + 1)) p"
  by (simp add: RecordError_def)

text \<open>
  Claim C3. Once started, \<open>RecordError\<close> given a payload that is an error passes that very
  error to the error reporter; given any other payload it passes an error whose text is
  the payload's \<open>%v\<close> rendering (\<open>42\<close> gives the text \<open>"42"\<close>). The group is passed on as
  it came.
\<close>

theorem RecordError_normalizes_payload:
  "agentStarted p \<Longrightarrow>
     (\<forall>e. msg = VError e \<longrightarrow>
        (\<exists>skip. RecordError a grp msg skipFrames p
                  = emit (Call_recordError (errorReporter a) grp e skip) p)) \<and>
     ((\<forall>e. msg \<noteq> VError e) \<longrightarrow>
        (\<exists>err skip. RecordError a grp msg skipFrames p
                      = emit (Call_recordError (errorReporter a) grp err skip) p \<and>
                    Error err = Sprintf_v msg)) \<and>
     Sprintf_v (VInt 42) = ''42''"
proof (intro conjI allI impI)
  fix e
  assume "agentStarted p" and "msg = VError e"
  then show "\<exists>skip. RecordError a grp msg skipFrames p
                     = emit (Call_recordError (errorReporter a) grp e skip) p"
    by (auto simp add: RecordError_started)
next
  assume started: "agentStarted p" and other: "\<forall>e. msg \<noteq> VError e"
  have "(case msg of VError e \<Rightarrow> e | _ \<Rightarrow> Errorf_v msg) = Errorf_v msg"
    using other by (cases msg) simp_all
  then have "RecordError a grp msg skipFrames p
               = emit (Call_recordError (errorReporter a) grp (Errorf_v msg) (skipFrames + 1)) p"
    using started by (simp add: RecordError_started)
  moreover have "Error (Errorf_v msg) = Sprintf_v msg"
    by (simp add: Errorf_v_def errors_New_def)
  ultimately show "\<exists>err skip. RecordError a grp msg skipFrames p
                       = emit (Call_recordError (errorReporter a) grp err skip) p \<and>
                     Error err = Sprintf_v msg"
    by blast
next
  show "Sprintf_v (VInt 42) = ''42''"
    by (simp add: FormatInt_42)
qed

theorem RecordError_normalizes_payload_witness:
  "agentStarted (demo_process True) \<and> (\<forall>e. VInt 42 \<noteq> VError e) \<and>
   (\<exists>err skip. RecordError (demo_agent 0) ''db'' (VInt 42) 0 (demo_process True)
                 = emit (Call_recordError (Some (0, ErrorReporter)) ''db'' err skip) (demo_process True) \<and>
               Error err = ''42'')"
proof -
  have h: "agentStarted (demo_process True)"
    by (simp add: demo_process_def)
  have "errorReporter (demo_agent 0) = Some (0, ErrorReporter)"
    by (simp add: demo_agent_def)
  then show ?thesis
    using h RecordError_normalizes_payload [OF h, of "VInt 42" "demo_agent 0" "''db''" 0]
    by auto
qed

text \<open>
  Claim C4, as stated, fails at the largest \<open>int\<close>: the error reporter receives the
  smallest \<open>int\<close>, not the caller's value plus one.
\<close>

theorem skipFrames_overflow:
  "trace (RecordError (demo_agent 0) ''db'' (VInt 42) 9223372036854775807 (demo_process True))
     = [Call_recordError (Some (0, ErrorReporter)) ''db'' (ErrorString ''42'') 9223372036854775808] \<and>
   sint (9223372036854775808 :: goint) = - 9223372036854775808 \<and>
   sint (9223372036854775807 :: goint) + 1 = 9223372036854775808"
  by (simp add: RecordError_def demo_process_def demo_agent_def emit_def Errorf_v_def
      errors_New_def FormatInt_42)

text \<open>
  Claim C4, amended. Once started, the error reporter receives \<open>skipFrames + 1\<close> computed in
  Go's 64-bit \<open>int\<close>: the caller's value plus one for every value below the largest
  \<open>int\<close>, and the smallest \<open>int\<close> when the caller passes the largest.
\<close>

theorem skipFrames_plus_one_wrapping:
  "agentStarted p \<Longrightarrow>
     (\<exists>err. RecordError a grp msg skipFrames p
              = emit (Call_recordError (errorReporter a) grp err (skipFrames + 1)) p) \<and>
     (sint skipFrames < 9223372036854775807 \<longrightarrow> sint (skipFrames + 1) = sint skipFrames + 1) \<and>
     (sint skipFrames = 9223372036854775807 \<longrightarrow> sint (skipFrames + 1) = - 9223372036854775808)"
proof (intro conjI impI)
  assume "agentStarted p"
  then show "\<exists>err. RecordError a grp msg skipFrames p
               = emit (Call_recordError (errorReporter a) grp err (skipFrames + 1)) p"
    by (auto simp add: RecordError_started)
next
  assume "sint skipFrames < 9223372036854775807"
  then show "sint (skipFrames + 1) = sint skipFrames + 1"
    using sint_ge [of skipFrames]
    by (simp add: sint_word_ariths signed_take_bit_int_eq_self)
next
  assume "sint skipFrames = 9223372036854775807"
  then have "skipFrames = 9223372036854775807"
    by (intro signed_word_eqI [where ?'a = int]) simp
  then show "sint (skipFrames + 1) = - 9223372036854775808"
    by simp
qed

theorem skipFrames_plus_one_wrapping_witness:
  "agentStarted (demo_process True) \<and> sint (0 :: goint) < 9223372036854775807 \<and>
   (\<exists>err. RecordError (demo_agent 0) ''db'' (VInt 42) 0 (demo_process True)
            = emit (Call_recordError (errorReporter (demo_agent 0)) ''db'' err 1) (demo_process True)) \<and>
   sint (0 + 1 :: goint) = sint (0 :: goint) + 1"
proof -
  have h: "agentStarted (demo_process True)"
    by (simp add: demo_process_def)
  show ?thesis
    using h skipFrames_plus_one_wrapping [OF h, of "demo_agent 0" "''db''" "VInt 42" 0]
    by simp
qed

lemma emit_fields [simp]:
  "agentStarted (emit e p) = agentStarted p"
  "heap (emit e p) = heap p"
  "allocated (emit e p) = allocated p"
  "trace (emit e p) = trace p @ [e]"
  by (simp_all add: emit_def)

lemma Start_first_HostName:
  "\<not> agentStarted p \<Longrightarrow>
     fst (Start a p) = a\<lparr>HostName := (if HostName a = [] then fst (hostname p) else HostName a)\<rparr>"
  by (simp add: Start_def os_Hostname_def Let_def split: prod.split option.split)

lemma Start_first_process:
  "\<not> agentStarted p \<Longrightarrow>
     agentStarted (snd (Start a p)) \<and>
     heap (snd (Start a p)) = heap p \<and>
     allocated (snd (Start a p)) = allocated p \<and>
     started (trace (snd (Start a p)))
       = started (trace p) @
         [configLoader a, messageQueue a, processReporter a, cpuReporter a,
          allocationReporter a, blockReporter a, segmentReporter a, errorReporter a]"
  by (simp add: Start_def os_Hostname_def Let_def split: prod.split option.split)

text \<open>
  Claim C6. The first \<open>Start\<close> keeps a host name that is not empty; an empty one it replaces
  by what \<open>os.Hostname()\<close> returned, whether or not that call reported an error, and in
  every case it goes on to set the flag and start the eight collaborators.
\<close>

theorem Start_resolves_HostName:
  "\<not> agentStarted p \<and> heap p x = Some a \<Longrightarrow>
     heap (step (DoStart x) p) x
       = Some (a\<lparr>HostName := (if HostName a = [] then fst (hostname p) else HostName a)\<rparr>) \<and>
     agentStarted (step (DoStart x) p) \<and>
     started (trace (step (DoStart x) p))
       = started (trace p) @
         [configLoader a, messageQueue a, processReporter a, cpuReporter a,
          allocationReporter a, blockReporter a, segmentReporter a, errorReporter a]"
  using Start_first_HostName [of p a] Start_first_process [of p a]
  by (simp add: split_def)

theorem Start_resolves_HostName_witness:
  "\<not> agentStarted (demo_process False) \<and> heap (demo_process False) 0 = Some (demo_agent 0) \<and>
   snd (hostname (demo_process False)) = Some (ErrorString ''hostname: not available'') \<and>
   heap (step (DoStart 0) (demo_process False)) 0 = Some (demo_agent 0) \<and>
   agentStarted (step (DoStart 0) (demo_process False)) \<and>
   started (trace (step (DoStart 0) (demo_process False)))
     = [Some (0, ConfigLoader), Some (0, MessageQueue), Some (0, ProcessReporter),
        Some (0, CPUReporter), Some (0, AllocationReporter), Some (0, BlockReporter),
        Some (0, SegmentReporter), Some (0, ErrorReporter)]"
proof -
  have h: "\<not> agentStarted (demo_process False) \<and> heap (demo_process False) 0 = Some (demo_agent 0)"
    by (simp add: demo_process_def)
  have "HostName (demo_agent 0) = [] \<and> hostname (demo_process False) = ([], Some (ErrorString ''hostname: not available''))
     \<and> trace (demo_process False) = []"
    by (simp add: demo_agent_def demo_process_def)
  then show ?thesis
    using h Start_resolves_HostName [OF h]
    by (simp add: demo_agent_def)
qed

text \<open>
  Claim C9. An operation guarded by \<open>defer a.recoverAndLog()\<close> always returns to its
  caller, whatever its body does. When the body panics, the panic is stopped and, with
  \<open>Debug\<close> set, exactly one \<open>Printf\<close> reports the value; without \<open>Debug\<close> nothing is
  printed. The value of a run-time panic is a \<open>runtime.Error\<close>, never nil (since Go 1.21
  \<open>panic(nil)\<close> itself panics with a \<open>*runtime.PanicNilError\<close>).
\<close>

theorem recoverAndLog_suppresses_panic:
  "fst (guarded a body p) = Returned \<and>
   (\<forall>p'. body p = (Returned, p') \<longrightarrow> guarded a body p = (Returned, p')) \<and>
   (\<forall>v p'. body p = (Panicking v, p') \<and> v \<noteq> VNil \<longrightarrow>
      trace (snd (guarded a body p)) =
        trace p' @
        (if Debug a then
           [Printf (''['' @ StampMilli (clock p' (ticks p')) @ ''] StackImpact 1.2.2: ''
                    @ ''Recovered from panic in agent: %v'' @ [newline]) [v]]
         else []) \<and>
      heap (snd (guarded a body p)) = heap p' \<and>
      agentStarted (snd (guarded a body p)) = agentStarted p')"
proof -
  obtain oc p' where b: "body p = (oc, p')"
    by (cases "body p")
  show ?thesis
    by (cases oc)
       (simp_all add: guarded_def recoverAndLog_def b log_def emit_def time_Now_def AgentVersion_def)
qed

theorem recoverAndLog_suppresses_panic_witness:
  "(\<lambda>p. (Panicking (VError (ErrorString ''index out of range'')), p)) (demo_process True)
     = (Panicking (VError (ErrorString ''index out of range'')), demo_process True) \<and>
   VError (ErrorString ''index out of range'') \<noteq> VNil \<and>
   fst (guarded (demo_agent 0) (\<lambda>p. (Panicking (VError (ErrorString ''index out of range'')), p))
          (demo_process True)) = Returned \<and>
   trace (snd (guarded (demo_agent 0) (\<lambda>p. (Panicking (VError (ErrorString ''index out of range'')), p))
                 (demo_process True)))
     = [Printf (''[Jan  2 15:04:05.000] StackImpact 1.2.2: Recovered from panic in agent: %v'' @ [newline])
          [VError (ErrorString ''index out of range'')]]"
  using recoverAndLog_suppresses_panic
          [of "demo_agent 0" "\<lambda>p. (Panicking (VError (ErrorString ''index out of range'')), p)"
              "demo_process True"]
  by (simp add: demo_agent_def demo_process_def demo_clock_def)



lemma length_digest_bytes: "length (digest_bytes d) = 20"
  by (cases d) (simp add: word_bytes_def)

lemma length_sha1_Sum: "length (sha1_Sum m) = 20"
  by (simp add: sha1_Sum_def length_digest_bytes)

lemma EncodeToString_Nil [simp]: "EncodeToString [] = []"
  by (simp add: EncodeToString_def)

lemma EncodeToString_Cons [simp]:
  "EncodeToString (v # vs)
     = hextable ! unat (drop_bit 4 v) # hextable ! unat (v AND 0x0f) # EncodeToString vs"
  by (simp add: EncodeToString_def)

lemma length_EncodeToString: "length (EncodeToString vs) = 2 * length vs"
  by (induction vs) simp_all

lemma high_nibble_bound: "unat (drop_bit 4 (v :: byte)) < 16"
proof -
  have "unat (drop_bit 4 v) = unat v div 16"
    by (simp add: drop_bit_eq_div unat_div)
  moreover have "unat v < 256"
    using unsigned_less [of v] by simp
  ultimately show ?thesis
    by simp
qed

lemma low_nibble_bound: "unat ((v :: byte) AND 0x0f) < 16"
proof -
  have "unat (v AND 15) \<le> unat (15 :: byte)"
    by (rule word_and_le1 [THEN word_le_nat_alt [THEN iffD1]])
  then show ?thesis
    by simp
qed

lemma hextable_nth_in: "n < 16 \<Longrightarrow> hextable ! n \<in> set hextable"
  by (rule nth_mem) (simp add: hextable_def)

lemma set_EncodeToString: "set (EncodeToString vs) \<subseteq> set hextable"
  by (induction vs) (simp_all add: hextable_nth_in high_nibble_bound low_nibble_bound)

lemma sha1String_shape: "length (sha1String s) = 40 \<and> set (sha1String s) \<subseteq> set hextable"
  by (simp add: sha1String_def length_EncodeToString length_sha1_Sum set_EncodeToString)

lemma uuid_eq:
  "uuid a p = (sha1String (uuid_text a p 0), a\<lparr>nextId := nextId a + 1\<rparr>,
               p\<lparr>ticks := Suc (ticks p), draws := Suc (draws p)\<rparr>)"
  by (simp add: uuid_def uuid_text_def time_Now_def rand_Intn_def)

lemma uuid_text_Suc:
  "uuid_text (a\<lparr>nextId := nextId a + 1\<rparr>) (p\<lparr>ticks := Suc (ticks p), draws := Suc (draws p)\<rparr>) i
     = uuid_text a p (Suc i)"
  by (simp add: uuid_text_def ac_simps)

lemma uuids_eq:
  "uuids n a p = (map (\<lambda>i. sha1String (uuid_text a p i)) [0..<n],
                  a\<lparr>nextId := nextId a + word_of_nat n\<rparr>,
                  p\<lparr>ticks := ticks p + n, draws := draws p + n\<rparr>)"
proof (induction n arbitrary: a p)
  case 0
  then show ?case by simp
next
  case (Suc n)
  let ?a = "a\<lparr>nextId := nextId a + 1\<rparr>"
  let ?p = "p\<lparr>ticks := Suc (ticks p), draws := Suc (draws p)\<rparr>"
  have ids: "map (\<lambda>i. sha1String (uuid_text a p i)) [0..<Suc n]
          = sha1String (uuid_text a p 0) # map (\<lambda>i. sha1String (uuid_text ?a ?p i)) [0..<n]"
    by (simp add: upt_conv_Cons map_Suc_upt [symmetric] uuid_text_Suc del: upt_Suc)
  have ag: "?a\<lparr>nextId := nextId ?a + word_of_nat n\<rparr> = a\<lparr>nextId := nextId a + word_of_nat (Suc n)\<rparr>"
    by (simp add: ac_simps)
  have pr: "?p\<lparr>ticks := ticks ?p + n, draws := draws ?p + n\<rparr>
              = p\<lparr>ticks := ticks p + Suc n, draws := draws p + Suc n\<rparr>"
    by simp
  have "uuids (Suc n) a p
          = (sha1String (uuid_text a p 0) # map (\<lambda>i. sha1String (uuid_text ?a ?p i)) [0..<n],
             ?a\<lparr>nextId := nextId ?a + word_of_nat n\<rparr>,
             ?p\<lparr>ticks := ticks ?p + n, draws := draws ?p + n\<rparr>)"
    by (simp add: uuid_eq Suc.IH)
  then show ?case
    unfolding ids ag pr .
qed

lemma first_call_text: "uuid_text fresh_agent fresh_process 0 = ''1500000000111''"
  by (simp add: uuid_text_def fresh_agent_def fresh_process_def demo_agent_def demo_process_def
      demo_clock_def demo_rng_def Itoa_def FormatInt_def digits10.simps digit_char_def)

lemma eleventh_call_text: "uuid_text fresh_agent fresh_process 10 = ''1500000000111''"
  by (simp add: uuid_text_def fresh_agent_def fresh_process_def demo_agent_def demo_process_def
      demo_clock_def demo_rng_def Itoa_def FormatInt_def digits10.simps digit_char_def)

text \<open>
  Claim C5. The counter that \<open>uuid\<close> adds to the hashed text is there to keep successive
  calls apart, but the time, the random number and the counter are concatenated without
  separators, so different calls can hash the same text. Eleven successive calls within
  one second, the first drawing the random number 11 and the eleventh drawing 1, hash
  \<open>1500000000\<close>, \<open>11\<close>, \<open>1\<close> and \<open>1500000000\<close>, \<open>1\<close>, \<open>11\<close>: the same text, and the first
  and the eleventh identifier are the same string. The identifiers are not pairwise
  distinct.
\<close>

theorem uuid_collision:
  "fst (uuids 11 fresh_agent fresh_process) ! 0 = fst (uuids 11 fresh_agent fresh_process) ! 10 \<and>
   \<not> distinct (fst (uuids 11 fresh_agent fresh_process))"
proof -
  have eq: "fst (uuids 11 fresh_agent fresh_process) ! 0 = fst (uuids 11 fresh_agent fresh_process) ! 10"
    by (simp add: uuids_eq first_call_text eleventh_call_text del: upt_Suc)
  moreover have "length (fst (uuids 11 fresh_agent fresh_process)) = 11"
    by (simp add: uuids_eq)
  ultimately have "\<not> distinct (fst (uuids 11 fresh_agent fresh_process))"
    using nth_eq_iff_index_eq [of "fst (uuids 11 fresh_agent fresh_process)" 0 10] by auto
  with eq show ?thesis by simp
qed

text \<open>Every identifier has 40 characters, all of them lowercase hexadecimal digits.\<close>

lemma uuids_length_and_alphabet:
  "length (fst (uuids n a p)) = n \<and>
   (\<forall>u \<in> set (fst (uuids n a p)). length u = 40 \<and> set u \<subseteq> set ''0123456789abcdef'')"
  using sha1String_shape
  by (auto simp add: uuids_eq hextable_def simp del: upt_Suc)

lemma consistent_initial: "consistent (initial clk rnd hn)"
  by (simp add: consistent_def initial_def)

lemma NewAgent_eq:
  "NewAgent p =
     (allocated p,
      p\<lparr>ticks := Suc (Suc (ticks p)), draws := Suc (draws p),
        heap := (heap p)(allocated p \<mapsto>
          \<lparr>nextId = 1,
           runId = sha1String (FormatInt (Unix (clock p (Suc (ticks p))))
                               @ Itoa (word_of_nat (rng p (draws p) mod 1000000000))
                               @ FormatInt 1),
           runTs = Unix (clock p (ticks p)),
           overheadLock = Some (allocated p, Mutex),
           apiRequest = Some (allocated p, APIRequest),
           configLoader = Some (allocated p, ConfigLoader),
           messageQueue = Some (allocated p, MessageQueue),
           processReporter = Some (allocated p, ProcessReporter),
           cpuReporter = Some (allocated p, CPUReporter),
           allocationReporter = Some (allocated p, AllocationReporter),
           blockReporter = Some (allocated p, BlockReporter),
           segmentReporter = Some (allocated p, SegmentReporter),
           errorReporter = Some (allocated p, ErrorReporter),
           DashboardAddress = SAASDashboardAddress,
           AgentKey = [], AppName = [], AppVersion = [], AppEnvironment = [],
           HostName = [], Debug = False, disableProfiling = False\<rparr>),
        allocated := Suc (allocated p)\<rparr>)"
  by (simp add: NewAgent_def uuid_eq uuid_text_def time_Now_def new_collaborator_def Let_def)

lemma wired_assign: "wired x (assign f a) = wired x a"
  by (cases f) (simp_all add: wired_def)

lemma wired_distinct:
  "wired x a \<Longrightarrow>
     distinct [configLoader a, messageQueue a, processReporter a, cpuReporter a,
               allocationReporter a, blockReporter a, segmentReporter a, errorReporter a]"
  by (simp add: wired_def)

lemma RecordSegment_fields [simp]:
  "agentStarted (RecordSegment a path d p) = agentStarted p"
  "heap (RecordSegment a path d p) = heap p"
  "allocated (RecordSegment a path d p) = allocated p"
  "started (trace (RecordSegment a path d p)) = started (trace p)"
  by (simp_all add: RecordSegment_def)

lemma RecordError_fields [simp]:
  "agentStarted (RecordError a grp msg s p) = agentStarted p"
  "heap (RecordError a grp msg s p) = heap p"
  "allocated (RecordError a grp msg s p) = allocated p"
  "started (trace (RecordError a grp msg s p)) = started (trace p)"
  by (simp_all add: RecordError_def)

lemma recoverAndLog_fields [simp]:
  "agentStarted (snd (recoverAndLog a oc p)) = agentStarted p"
  "heap (snd (recoverAndLog a oc p)) = heap p"
  "allocated (snd (recoverAndLog a oc p)) = allocated p"
  "started (trace (snd (recoverAndLog a oc p))) = started (trace p)"
  by (cases oc; simp add: recoverAndLog_def)+

lemma Start_again:
  "agentStarted p \<Longrightarrow> Start a p = (a, log a ''Agent configuration failed. Another agent has already been initialized.'' [] p)"
  by (simp add: Start_def)

lemma consistent_step: "consistent p \<Longrightarrow> consistent (step c p)"
proof (cases c)
  case DoNewAgent
  assume "consistent p"
  then show ?thesis
    by (auto simp add: DoNewAgent consistent_def NewAgent_eq wired_def less_Suc_eq)
next
  case (DoAssign x f)
  assume "consistent p"
  then show ?thesis
    by (auto simp add: DoAssign consistent_def wired_assign split: option.split)
next
  case (DoStart x)
  assume c: "consistent p"
  show ?thesis
  proof (cases "heap p x")
    case None
    with c show ?thesis by (simp add: DoStart)
  next
    case (Some a)
    with c have w: "wired x a" and lt: "x < allocated p"
      by (simp_all add: consistent_def)
    show ?thesis
    proof (cases "agentStarted p")
      case True
      with c Some show ?thesis
        by (auto simp add: DoStart consistent_def Start_again)
    next
      case False
      with c have "started (trace p) = []"
        by (simp add: consistent_def)
      moreover have "wired x (fst (Start a p))"
        using w by (simp add: Start_first_HostName False wired_def)
      ultimately show ?thesis
        using c Some lt False Start_first_process [OF False, of a] wired_distinct [OF w]
        by (auto simp add: DoStart consistent_def split_def Let_def)
    qed
  qed
next
  case (DoRecordSegment x path d)
  assume "consistent p"
  then show ?thesis
    by (simp add: DoRecordSegment consistent_def split: option.split)
next
  case (DoRecordError x grp msg s)
  assume "consistent p"
  then show ?thesis
    by (simp add: DoRecordError consistent_def split: option.split)
next
  case (DoLog x f vs)
  assume "consistent p"
  then show ?thesis
    by (simp add: DoLog consistent_def split: option.split)
next
  case (DoError x e)
  assume "consistent p"
  then show ?thesis
    by (simp add: DoError consistent_def split: option.split)
next
  case (DoRecoverAndLog x oc)
  assume "consistent p"
  then show ?thesis
    by (simp add: DoRecoverAndLog consistent_def split: option.split)
next
  case (DoUuid x)
  assume "consistent p"
  then show ?thesis
    by (auto simp add: DoUuid consistent_def uuid_eq wired_def split: option.split)
qed

lemma consistent_run: "consistent p \<Longrightarrow> consistent (run cs p)"
  by (induction cs arbitrary: p) (simp_all add: consistent_step)

lemma runId_step:
  "consistent p \<Longrightarrow> heap p x = Some a \<Longrightarrow> \<exists>a'. heap (step c p) x = Some a' \<and> runId a' = runId a"
proof (cases c)
  case DoNewAgent
  assume "consistent p" and "heap p x = Some a"
  then show ?thesis
    by (auto simp add: DoNewAgent consistent_def NewAgent_eq)
next
  case (DoAssign y f)
  assume "consistent p" and "heap p x = Some a"
  then show ?thesis
    by (cases f) (auto simp add: DoAssign split: option.split)
next
  case (DoStart y)
  assume "consistent p" and h: "heap p x = Some a"
  show ?thesis
  proof (cases "agentStarted p")
    case True
    with h show ?thesis
      by (auto simp add: DoStart Start_again split: option.split)
  next
    case False
    with h show ?thesis
      using Start_first_process [OF False]
      by (auto simp add: DoStart Start_first_HostName split_def Let_def split: option.split)
  qed
next
  case (DoUuid y)
  assume "consistent p" and "heap p x = Some a"
  then show ?thesis
    by (auto simp add: DoUuid uuid_eq split: option.split)
qed (simp_all split: option.split)

lemma runId_run:
  "consistent p \<Longrightarrow> heap p x = Some a \<Longrightarrow> \<exists>a'. heap (run cs p) x = Some a' \<and> runId a' = runId a"
proof (induction cs arbitrary: p a)
  case Nil
  then show ?case by simp
next
  case (Cons c cs)
  from runId_step [OF Cons.prems, where c = c] obtain a' where
    "heap (step c p) x = Some a'" and "runId a' = runId a"
    by blast
  with Cons.IH [OF consistent_step [OF Cons.prems(1)], where a = a'] show ?case
    by simp
qed

text \<open>
  For calls made one after the other: in a process reached by any sequence of calls, no
  collaborator has been started twice. If no agent has started yet, \<open>Start\<close> on an agent
  starts, as the first \<open>start\<close> calls of the process, that agent's configuration loader,
  message queue, process reporter, CPU reporter, allocation reporter, block reporter,
  segment reporter and error reporter, each once and in this order.
\<close>

theorem collaborators_started_once_in_order:
  "p = run cs (initial clk rnd hn) \<Longrightarrow>
     distinct (started (trace p)) \<and>
     (\<forall>x a. \<not> agentStarted p \<and> heap p x = Some a \<longrightarrow>
        started (trace (step (DoStart x) p))
          = [configLoader a, messageQueue a, processReporter a, cpuReporter a,
             allocationReporter a, blockReporter a, segmentReporter a, errorReporter a] \<and>
        [configLoader a, messageQueue a, processReporter a, cpuReporter a,
         allocationReporter a, blockReporter a, segmentReporter a, errorReporter a]
          = [Some (x, ConfigLoader), Some (x, MessageQueue), Some (x, ProcessReporter),
             Some (x, CPUReporter), Some (x, AllocationReporter), Some (x, BlockReporter),
             Some (x, SegmentReporter), Some (x, ErrorReporter)])"
proof -
  assume "p = run cs (initial clk rnd hn)"
  then have c: "consistent p"
    by (simp add: consistent_run [OF consistent_initial])
  then have "distinct (started (trace p))"
    by (simp add: consistent_def)
  moreover have "started (trace (step (DoStart x) p))
        = [configLoader a, messageQueue a, processReporter a, cpuReporter a,
           allocationReporter a, blockReporter a, segmentReporter a, errorReporter a] \<and>
      [configLoader a, messageQueue a, processReporter a, cpuReporter a,
       allocationReporter a, blockReporter a, segmentReporter a, errorReporter a]
        = [Some (x, ConfigLoader), Some (x, MessageQueue), Some (x, ProcessReporter),
           Some (x, CPUReporter), Some (x, AllocationReporter), Some (x, BlockReporter),
           Some (x, SegmentReporter), Some (x, ErrorReporter)]"
    if "\<not> agentStarted p" and "heap p x = Some a" for x a
  proof -
    from c that have "started (trace p) = []" and "wired x a"
      by (simp_all add: consistent_def)
    then show ?thesis
      using that Start_first_process [OF that(1), of a]
      by (simp add: split_def Let_def wired_def)
  qed
  ultimately show ?thesis
    by blast
qed

lemma demo_initial_NewAgent:
  "\<not> agentStarted (run [DoNewAgent] demo_initial) \<and>
   heap (run [DoNewAgent] demo_initial) 0 = Some ((demo_agent 0)\<lparr>Debug := False\<rparr>)"
  by (simp add: demo_initial_def initial_def NewAgent_eq demo_agent_def demo_clock_def demo_rng_def
      Itoa_def FormatInt_def digits10.simps digit_char_def)

theorem collaborators_started_once_in_order_witness:
  "run [DoNewAgent] demo_initial = run [DoNewAgent] (initial demo_clock demo_rng (''host'', None)) \<and>
   \<not> agentStarted (run [DoNewAgent] demo_initial) \<and>
   heap (run [DoNewAgent] demo_initial) 0 = Some ((demo_agent 0)\<lparr>Debug := False\<rparr>) \<and>
   distinct (started (trace (run [DoNewAgent, DoStart 0] demo_initial))) \<and>
   started (trace (run [DoNewAgent, DoStart 0] demo_initial))
     = [Some (0, ConfigLoader), Some (0, MessageQueue), Some (0, ProcessReporter),
        Some (0, CPUReporter), Some (0, AllocationReporter), Some (0, BlockReporter),
        Some (0, SegmentReporter), Some (0, ErrorReporter)]"
proof -
  have i: "run [DoNewAgent] demo_initial = run [DoNewAgent] (initial demo_clock demo_rng (''host'', None))"
    and j: "run [DoNewAgent, DoStart 0] demo_initial
              = run [DoNewAgent, DoStart 0] (initial demo_clock demo_rng (''host'', None))"
    by (simp_all only: demo_initial_def)
  have s: "run [DoNewAgent, DoStart 0] demo_initial = step (DoStart 0) (run [DoNewAgent] demo_initial)"
    by (simp only: run.simps)
  show ?thesis
    using i demo_initial_NewAgent
      collaborators_started_once_in_order [OF i]
      collaborators_started_once_in_order [OF j]
    unfolding s by (simp add: demo_agent_def del: step.simps run.simps)
qed

text \<open>The test and the rest, one after the other, are \<open>Start\<close>.\<close>

lemma Start_in_two_steps:
  "Start a p = (case Start_test a p of (False, p') \<Rightarrow> (a, p') | (True, p') \<Rightarrow> Start_rest a p')"
  by (simp add: Start_def Start_test_def Start_rest_def)

lemma schedule_alone_is_Start:
  "heap p x = Some a \<Longrightarrow> schedule [0, 0] (p, [Calling x]) = (step (DoStart x) p, [Finished])"
  by (simp add: advance_def Start_def Start_test_def Start_rest_def fun_upd_idem
      split: prod.split)

lemma Start_rest_process:
  "heap (snd (Start_rest a p)) = heap p \<and>
   started (trace (snd (Start_rest a p)))
     = started (trace p) @
       [configLoader a, messageQueue a, processReporter a, cpuReporter a,
        allocationReporter a, blockReporter a, segmentReporter a, errorReporter a] \<and>
   fst (Start_rest a p) = a\<lparr>HostName := (if HostName a = [] then fst (hostname p) else HostName a)\<rparr>"
  by (simp add: Start_rest_def os_Hostname_def Let_def split: prod.split option.split)

lemma racing_Starts:
  assumes "\<not> agentStarted p" and "heap p x = Some a"
  shows "started (trace (fst (schedule [0, 1, 0, 1] (p, [Calling x, Calling x]))))
           = started (trace p) @
             [configLoader a, messageQueue a, processReporter a, cpuReporter a,
              allocationReporter a, blockReporter a, segmentReporter a, errorReporter a] @
             [configLoader a, messageQueue a, processReporter a, cpuReporter a,
              allocationReporter a, blockReporter a, segmentReporter a, errorReporter a]"
proof -
  have s1: "advance 0 (p, [Calling x, Calling x]) = (p, [Passed x, Calling x])"
    using assms by (simp add: advance_def Start_test_def)
  have s2: "advance (Suc 0) (p, [Passed x, Calling x]) = (p, [Passed x, Passed x])"
    using assms by (simp add: advance_def Start_test_def)
  define a1 where "a1 = fst (Start_rest a p)"
  define p1 where "p1 = (snd (Start_rest a p))\<lparr>heap := (heap (snd (Start_rest a p)))(x \<mapsto> a1)\<rparr>"
  have s3: "advance 0 (p, [Passed x, Passed x]) = (p1, [Finished, Passed x])"
    using assms by (simp add: advance_def p1_def a1_def split_def Let_def)
  have h1: "heap p1 x = Some a1"
    by (simp add: p1_def)
  define a2 where "a2 = fst (Start_rest a1 p1)"
  define p2 where "p2 = (snd (Start_rest a1 p1))\<lparr>heap := (heap (snd (Start_rest a1 p1)))(x \<mapsto> a2)\<rparr>"
  have s4: "advance (Suc 0) (p1, [Finished, Passed x]) = (p2, [Finished, Finished])"
    using h1 by (simp add: advance_def p2_def a2_def split_def Let_def)
  have "schedule [0, 1, 0, 1] (p, [Calling x, Calling x]) = (p2, [Finished, Finished])"
    by (simp add: s1 s2 s3 s4)
  moreover have "started (trace p1)
      = started (trace p) @
        [configLoader a, messageQueue a, processReporter a, cpuReporter a,
         allocationReporter a, blockReporter a, segmentReporter a, errorReporter a]"
    using Start_rest_process [of a p] by (simp add: p1_def)
  moreover have "started (trace p2)
      = started (trace p1) @
        [configLoader a1, messageQueue a1, processReporter a1, cpuReporter a1,
         allocationReporter a1, blockReporter a1, segmentReporter a1, errorReporter a1]"
    using Start_rest_process [of a1 p1] by (simp add: p2_def)
  moreover have "[configLoader a1, messageQueue a1, processReporter a1, cpuReporter a1,
         allocationReporter a1, blockReporter a1, segmentReporter a1, errorReporter a1]
      = [configLoader a, messageQueue a, processReporter a, cpuReporter a,
         allocationReporter a, blockReporter a, segmentReporter a, errorReporter a]"
    using Start_rest_process [of a p] by (simp add: a1_def)
  ultimately show ?thesis
    by simp
qed

text \<open>Two goroutines that run \<open>Start\<close> on the same agent in turn start the collaborators
  once.\<close>

lemma Starts_in_turn:
  "started (trace (fst (schedule [0, 0, 1, 1] (demo_process False, [Calling 0, Calling 0]))))
     = [Some (0, ConfigLoader), Some (0, MessageQueue), Some (0, ProcessReporter),
        Some (0, CPUReporter), Some (0, AllocationReporter), Some (0, BlockReporter),
        Some (0, SegmentReporter), Some (0, ErrorReporter)]"
  by (simp add: advance_def Start_test_def Start_rest_def demo_process_def demo_agent_def
      os_Hostname_def Let_def)

text \<open>
  Claim C7. The guard of \<open>Start\<close> is meant to let the collaborators be started once in the
  life of the process, and for calls made one after the other it does. It does not when
  two goroutines call \<open>Start\<close> on the same agent and both make the test before either sets
  the flag: both find it unset, both go on, and each of the eight collaborators is
  started twice.
\<close>

theorem racing_Starts_start_collaborators_twice:
  "started (trace (fst (schedule [0, 1, 0, 1] (demo_process False, [Calling 0, Calling 0]))))
     = [Some (0, ConfigLoader), Some (0, MessageQueue), Some (0, ProcessReporter),
        Some (0, CPUReporter), Some (0, AllocationReporter), Some (0, BlockReporter),
        Some (0, SegmentReporter), Some (0, ErrorReporter),
        Some (0, ConfigLoader), Some (0, MessageQueue), Some (0, ProcessReporter),
        Some (0, CPUReporter), Some (0, AllocationReporter), Some (0, BlockReporter),
        Some (0, SegmentReporter), Some (0, ErrorReporter)] \<and>
   \<not> distinct (started (trace (fst (schedule [0, 1, 0, 1]
                                       (demo_process False, [Calling 0, Calling 0])))))"
proof -
  have "\<not> agentStarted (demo_process False)" and "heap (demo_process False) 0 = Some (demo_agent 0)"
    and "trace (demo_process False) = []"
    by (simp_all add: demo_process_def)
  from racing_Starts [OF this(1,2)] this(3)
  have "started (trace (fst (schedule [0, 1, 0, 1] (demo_process False, [Calling 0, Calling 0]))))
     = [Some (0, ConfigLoader), Some (0, MessageQueue), Some (0, ProcessReporter),
        Some (0, CPUReporter), Some (0, AllocationReporter), Some (0, BlockReporter),
        Some (0, SegmentReporter), Some (0, ErrorReporter),
        Some (0, ConfigLoader), Some (0, MessageQueue), Some (0, ProcessReporter),
        Some (0, CPUReporter), Some (0, AllocationReporter), Some (0, BlockReporter),
        Some (0, SegmentReporter), Some (0, ErrorReporter)]"
    by (simp add: demo_agent_def)
  then show ?thesis
    by simp
qed

text \<open>
  Claim C8. \<open>NewAgent\<close> puts a new agent at an address that held none, with \<open>runId\<close> set to
  what \<open>uuid\<close> returned on the agent with its counter at zero. From then on no sequence of
  calls (assignments to the option fields, \<open>Start\<close>, \<open>RecordSegment\<close>, \<open>RecordError\<close>,
  \<open>log\<close>, \<open>error\<close>, \<open>recoverAndLog\<close>, \<open>uuid\<close>, further \<open>NewAgent\<close>) changes the \<open>runId\<close>
  of an agent.
\<close>

theorem runId_never_changes:
  "p = run cs (initial clk rnd hn) \<Longrightarrow>
     (\<exists>a. heap (snd (NewAgent p)) (fst (NewAgent p)) = Some a \<and>
          (\<forall>a0. nextId a0 = 0 \<longrightarrow> runId a = fst (uuid a0 (snd (time_Now p))))) \<and>
     heap p (fst (NewAgent p)) = None \<and>
     (\<forall>x a. heap p x = Some a \<longrightarrow>
        (\<exists>a'. heap (run cs' p) x = Some a' \<and> runId a' = runId a))"
proof -
  assume "p = run cs (initial clk rnd hn)"
  then have c: "consistent p"
    by (simp add: consistent_run [OF consistent_initial])
  have "heap p (allocated p) = None"
  proof (cases "heap p (allocated p)")
    case (Some a)
    with c have "allocated p < allocated p"
      unfolding consistent_def by blast
    then show ?thesis by simp
  qed simp
  then have "heap p (fst (NewAgent p)) = None"
    by (simp add: NewAgent_eq)
  moreover have "\<exists>a. heap (snd (NewAgent p)) (fst (NewAgent p)) = Some a \<and>
          (\<forall>a0. nextId a0 = 0 \<longrightarrow> runId a = fst (uuid a0 (snd (time_Now p))))"
    by (simp add: NewAgent_eq uuid_eq uuid_text_def time_Now_def)
  moreover have "\<exists>a'. heap (run cs' p) x = Some a' \<and> runId a' = runId a"
    if "heap p x = Some a" for x a
    using c that by (rule runId_run)
  ultimately show ?thesis
    by blast
qed

theorem runId_never_changes_witness:
  "run [DoNewAgent] demo_initial = run [DoNewAgent] (initial demo_clock demo_rng (''host'', None)) \<and>
   heap (run [DoNewAgent] demo_initial) 0 = Some ((demo_agent 0)\<lparr>Debug := False\<rparr>) \<and>
   nextId fresh_agent = 0 \<and>
   (\<exists>a'. heap (run [DoAssign 0 (SetDebug True), DoStart 0, DoUuid 0, DoRecordError 0 ''db'' (VInt 42) 0,
                    DoNewAgent, DoStart 1]
                (run [DoNewAgent] demo_initial)) 0 = Some a' \<and>
         runId a' = sha1String ''1500000000111'')"
proof -
  have i: "run [DoNewAgent] demo_initial = run [DoNewAgent] (initial demo_clock demo_rng (''host'', None))"
    by (simp only: demo_initial_def)
  have r: "runId ((demo_agent 0)\<lparr>Debug := False\<rparr>) = sha1String ''1500000000111''"
    and n: "nextId fresh_agent = 0"
    by (simp_all add: demo_agent_def fresh_agent_def)
  have "\<exists>a'. heap (run [DoAssign 0 (SetDebug True), DoStart 0, DoUuid 0,
                            DoRecordError 0 ''db'' (VInt 42) 0, DoNewAgent, DoStart 1]
                       (run [DoNewAgent] demo_initial)) 0 = Some a' \<and>
             runId a' = runId ((demo_agent 0)\<lparr>Debug := False\<rparr>)"
    using demo_initial_NewAgent
      runId_never_changes [OF i, of "[DoAssign 0 (SetDebug True), DoStart 0, DoUuid 0,
        DoRecordError 0 ''db'' (VInt 42) 0, DoNewAgent, DoStart 1]"]
    by blast
  then show ?thesis
    unfolding r using i n demo_initial_NewAgent by blast
qed

end
